theory Spec2Isabelle
  imports Complex_Main "HOL-Library.Multiset" "HOL-Library.Sublist" "HOL-Library.Log_Nat"
begin

section \<open>Data model\<close>

text \<open>
  The prediction table of \<^verbatim>\<open>app.py\<close> is a pandas DataFrame read from
  \<^verbatim>\<open>result.csv\<close> with the columns \<^verbatim>\<open>item_id\<close>, \<^verbatim>\<open>shop_id\<close> and
  \<^verbatim>\<open>item_cnt_month\<close>. A frame is modelled as the list of its rows in row order.
  Identifiers are Python integers (\<open>int\<close>). A forecast quantity is a finite float64
  value, given as the rational number it denotes. Selecting, counting, ordering and
  slicing do not compute with the quantities; where the program adds or divides them,
  the exact operation and the float64 operation are kept apart and named.
\<close>

record row =
  item_id :: int
  shop_id :: int
  item_cnt_month :: rat

type_synonym dataframe = "row list"

text \<open>
  A two-column frame (\<^verbatim>\<open>item_id\<close> with its total, or \<^verbatim>\<open>shop_id\<close> with its
  quantity) is a list of pairs; the second component is the \<^verbatim>\<open>item_cnt_month\<close> column.
\<close>

type_synonym frame2 = "(int \<times> rat) list"

section \<open>The pandas operations used by the program\<close>

text \<open>
  \<^verbatim>\<open>df.groupby('item_id')['item_cnt_month'].sum().reset_index()\<close>: one row per distinct
  \<^verbatim>\<open>item_id\<close>, group keys in ascending order (the default \<^verbatim>\<open>sort=True\<close>), each
  with the sum of the quantities of its rows. The sum is the exact one; what is proved
  about the sample uses the totals only through their order.
\<close>

definition groupby_sum :: "dataframe \<Rightarrow> frame2" where
  "groupby_sum df =
     map (\<lambda>k. (k, sum_list (map item_cnt_month (filter (\<lambda>r. item_id r = k) df))))
         (sort (remdups (map item_id df)))"

text \<open>
  \<^verbatim>\<open>sort_values('item_cnt_month', ascending=False)\<close>: the rows in non-increasing order
  of the quantity column. The model keeps rows of equal quantity in their original order.
  pandas promises that order for \<^verbatim>\<open>nlargest\<close> (\<^verbatim>\<open>keep='first'\<close>) and leaves it
  open for the default sort kind of \<^verbatim>\<open>sort_values\<close>; what is proved about
  \<open>get_sample_items\<close> below uses only that the result is a non-increasing rearrangement
  of the rows, and the tables it is evaluated on have pairwise distinct totals.
\<close>

definition sort_values_desc :: "('a \<Rightarrow> rat) \<Rightarrow> 'a list \<Rightarrow> 'a list" where
  "sort_values_desc col xs = sort_key (\<lambda>r. - col r) xs"

text \<open>
  \<^verbatim>\<open>head(k)\<close>, \<^verbatim>\<open>tail(k)\<close> and the positional slice \<^verbatim>\<open>iloc[a:b]\<close> never raise:
  bounds beyond the frame are clamped, as Python slices are.
\<close>

definition df_head :: "nat \<Rightarrow> 'a list \<Rightarrow> 'a list" where
  "df_head k xs = take k xs"

definition df_tail :: "nat \<Rightarrow> 'a list \<Rightarrow> 'a list" where
  "df_tail k xs = drop (length xs - k) xs"

definition iloc_slice :: "nat \<Rightarrow> nat \<Rightarrow> 'a list \<Rightarrow> 'a list" where
  "iloc_slice a b xs = take (b - a) (drop a xs)"

text \<open>
  \<^verbatim>\<open>nlargest(k, 'item_cnt_month')\<close> with the default \<^verbatim>\<open>keep='first'\<close>: the \<open>k\<close> rows
  with the largest quantities, in non-increasing order, earlier rows first among equal
  quantities.
\<close>

definition nlargest :: "nat \<Rightarrow> ('a \<Rightarrow> rat) \<Rightarrow> 'a list \<Rightarrow> 'a list" where
  "nlargest k col xs = df_head k (sort_values_desc col xs)"

section \<open>Sample selection: \<^verbatim>\<open>get_sample_items\<close>\<close>

text \<open>\<^verbatim>\<open>item_totals\<close> after line 37: the per-item totals, sorted descending by total.\<close>

definition item_totals :: "dataframe \<Rightarrow> frame2" where
  "item_totals df = sort_values_desc snd (groupby_sum df)"

definition top_items :: "dataframe \<Rightarrow> int list" where
  "top_items df = map fst (df_head 3 (item_totals df))"

definition mid_items :: "dataframe \<Rightarrow> int list" where
  "mid_items df =
     map fst (iloc_slice (length (item_totals df) div 2) (length (item_totals df) div 2 + 4)
                (item_totals df))"

definition low_items :: "dataframe \<Rightarrow> int list" where
  "low_items df = map fst (df_tail 3 (item_totals df))"

text \<open>The parameter \<open>n\<close> (default 10) is accepted and never read by the body.\<close>

definition get_sample_items :: "dataframe \<Rightarrow> int \<Rightarrow> int list" where
  "get_sample_items df n = top_items df @ mid_items df @ low_items df"

section \<open>Lookup: \<^verbatim>\<open>predict_sales\<close>\<close>

text \<open>
  \<^verbatim>\<open>predict_sales\<close> returns \<^verbatim>\<open>None\<close> when no row matches (\<open>NotFound\<close>). A division
  by zero is a failure of its own, so that the guard of line 66 has something to guard.
  Here the sum of line 64 and the quotient of line 66 are exact; the same body in
  float64 arithmetic is \<open>predict_sales_f64\<close> below, and the two agree on the failure,
  the shop count and \<open>top_shops\<close>.
\<close>

datatype error = NotFound | ZeroDivision

record summary =
  total_sales :: rat
  n_shops :: nat
  avg_per_shop :: rat
  top_shops :: frame2

definition true_div :: "rat \<Rightarrow> nat \<Rightarrow> error + rat" where
  "true_div x k = (if k = 0 then Inl ZeroDivision else Inr (x / of_nat k))"

text \<open>Line 66: \<^verbatim>\<open>total_sales / n_shops if n_shops > 0 else 0\<close>.\<close>

definition avg_expr :: "rat \<Rightarrow> nat \<Rightarrow> error + rat" where
  "avg_expr tsum k = (if k > 0 then true_div tsum k else Inr 0)"

definition shop_cols :: "row \<Rightarrow> int \<times> rat" where
  "shop_cols r = (shop_id r, item_cnt_month r)"

definition item_predictions :: "dataframe \<Rightarrow> int \<Rightarrow> dataframe" where
  "item_predictions df iid = filter (\<lambda>r. item_id r = iid) df"

definition predict_sales :: "dataframe \<Rightarrow> int \<Rightarrow> error + summary" where
  "predict_sales df iid =
     (let sel = item_predictions df iid in
      if length sel = 0 then Inl NotFound
      else
        let tsum = sum_list (map item_cnt_month sel);
            k = length sel
        in case avg_expr tsum k of
             Inl e \<Rightarrow> Inl e
           | Inr avg \<Rightarrow>
               Inr \<lparr>total_sales = tsum, n_shops = k, avg_per_shop = avg,
                    top_shops = map shop_cols (nlargest 5 item_cnt_month sel)\<rparr>)"

section \<open>The selection list of \<^verbatim>\<open>main\<close>\<close>

text \<open>Line 118: \<^verbatim>\<open>sorted(df['item_id'].unique().tolist())\<close>.\<close>

definition all_items :: "dataframe \<Rightarrow> int list" where
  "all_items df = sort (remdups (map item_id df))"

text \<open>
  Line 121: the sentinel \<open>0\<close>, the sample, then the items of \<open>all_items\<close> that are
  not in the sample.
\<close>

definition options :: "dataframe \<Rightarrow> int list" where
  "options df =
     (let sample_items = get_sample_items df 10
      in [0] @ sample_items @ filter (\<lambda>item. item \<notin> set sample_items) (all_items df))"

section \<open>Lookup in float64 arithmetic\<close>

text \<open>
  \<open>predict_sales\<close> above adds and divides exactly. The program reads
  \<^verbatim>\<open>item_cnt_month\<close> as a float64 column, so lines 64 and 66 round: this section gives
  that arithmetic. A finite float64 value is the rational it denotes. Results of
  magnitude \<open>2 ^ 1024\<close> and above (infinity in float64), NaN, and a file whose quantities
  are all written as integers (which pandas reads as int64) are outside the model.
\<close>

text \<open>
  Rounding a rational to the nearest integer, a tie going to the even neighbour.
\<close>

definition round_even :: "rat \<Rightarrow> int" where
  "round_even y =
     (let f = \<lfloor>y\<rfloor>; d = y - of_int f
      in if d < 1 / 2 then f else if 1 / 2 < d then f + 1 else if even f then f else f + 1)"

text \<open>
  For \<open>a > 0\<close>, \<open>ilog2 a\<close> is the exponent of the binade of \<open>a\<close>: the largest \<open>l\<close>
  with \<open>2 powi l \<le> a\<close>, read off the bit length of \<open>\<lfloor>a\<rfloor>\<close> (for \<open>a \<ge> 1\<close>) or of
  \<open>\<lceil>1 / a\<rceil> - 1\<close> (for \<open>a < 1\<close>).
\<close>

definition ilog2 :: "rat \<Rightarrow> int" where
  "ilog2 a = (if 1 \<le> a then bitlen \<lfloor>a\<rfloor> - 1 else - bitlen (\<lceil>1 / a\<rceil> - 1))"

text \<open>
  The spacing of float64 values around \<open>x\<close>: 53 significant bits, so \<open>2 powi (l - 52)\<close>
  in the binade \<open>l\<close>, and never finer than the smallest subnormal \<open>2 powi (- 1074)\<close>.
\<close>

definition min_exp :: int where
  "min_exp = - 1074"

definition quantum :: "rat \<Rightarrow> rat" where
  "quantum x = 2 powi (max (ilog2 \<bar>x\<bar> - 52) min_exp)"

text \<open>\<open>round64 x\<close> is the float64 value nearest to \<open>x\<close>, ties to even.\<close>

definition round64 :: "rat \<Rightarrow> rat" where
  "round64 x = (if x = 0 then 0 else of_int (round_even (x / quantum x)) * quantum x)"

text \<open>
  The column sum of line 64, adding left to right and rounding after each addition. The
  order in which the library adds the entries of a longer column is its own; what is
  stated about \<open>f64_sum\<close> below is either about tables of two rows and about quantities
  whose every partial sum is exact, where the order makes no difference, or says that it
  is about running sums from the left.
\<close>

definition f64_add :: "rat \<Rightarrow> rat \<Rightarrow> rat" where
  "f64_add x y = round64 (x + y)"

definition f64_sum :: "rat list \<Rightarrow> rat" where
  "f64_sum xs = foldl f64_add 0 xs"




text \<open>
  Lines 64 to 66 in float64: the sum is \<open>f64_sum\<close>, and the quotient of line 66 is
  rounded. The shop count is an integer, exact as a float64 value below \<open>2 ^ 53\<close>.
  Everything else is the body of \<open>predict_sales\<close> unchanged.
\<close>

definition f64_true_div :: "rat \<Rightarrow> nat \<Rightarrow> error + rat" where
  "f64_true_div x k = (if k = 0 then Inl ZeroDivision else Inr (round64 (x / of_nat k)))"

definition avg_expr_f64 :: "rat \<Rightarrow> nat \<Rightarrow> error + rat" where
  "avg_expr_f64 tsum k = (if k > 0 then f64_true_div tsum k else Inr 0)"

definition predict_sales_f64 :: "dataframe \<Rightarrow> int \<Rightarrow> error + summary" where
  "predict_sales_f64 df iid =
     (let sel = item_predictions df iid in
      if length sel = 0 then Inl NotFound
      else
        let tsum = f64_sum (map item_cnt_month sel);
            k = length sel
        in case avg_expr_f64 tsum k of
             Inl e \<Rightarrow> Inl e
           | Inr avg \<Rightarrow>
               Inr \<lparr>total_sales = tsum, n_shops = k, avg_per_shop = avg,
                    top_shops = map shop_cols (nlargest 5 item_cnt_month sel)\<rparr>)"

section \<open>Example tables\<close>

text \<open>The three-row example table of the specification.\<close>

definition example_table :: dataframe where
  "example_table =
     [\<lparr>item_id = 1, shop_id = 10, item_cnt_month = 5\<rparr>,
      \<lparr>item_id = 1, shop_id = 11, item_cnt_month = 3\<rparr>,
      \<lparr>item_id = 2, shop_id = 10, item_cnt_month = 1\<rparr>]"

text \<open>Items 1..20, one row each, item \<open>k\<close> with quantity \<open>k\<close>.\<close>

definition table20 :: dataframe where
  "table20 = map (\<lambda>k. \<lparr>item_id = k, shop_id = 1, item_cnt_month = of_int k\<rparr>) [1..20]"

text \<open>Seven rows of item 7 with repeated quantities, and one row of another item.\<close>

definition tie_table :: dataframe where
  "tie_table =
     [\<lparr>item_id = 7, shop_id = 1, item_cnt_month = 2\<rparr>,
      \<lparr>item_id = 7, shop_id = 2, item_cnt_month = 4\<rparr>,
      \<lparr>item_id = 8, shop_id = 2, item_cnt_month = 9\<rparr>,
      \<lparr>item_id = 7, shop_id = 3, item_cnt_month = 2\<rparr>,
      \<lparr>item_id = 7, shop_id = 4, item_cnt_month = 4\<rparr>,
      \<lparr>item_id = 7, shop_id = 5, item_cnt_month = 1\<rparr>,
      \<lparr>item_id = 7, shop_id = 6, item_cnt_month = 2\<rparr>,
      \<lparr>item_id = 7, shop_id = 7, item_cnt_month = 3\<rparr>]"

definition tie_summary :: summary where
  "tie_summary =
     \<lparr>total_sales = 18, n_shops = 7, avg_per_shop = 18 / 7,
      top_shops = [(2, 4), (4, 4), (7, 3), (1, 2), (3, 2)]\<rparr>"

definition example_summary :: summary where
  "example_summary =
     \<lparr>total_sales = 8, n_shops = 2, avg_per_shop = 4, top_shops = [(10, 5), (11, 3)]\<rparr>"






section \<open>Facts about the pandas operations\<close>

lemma mset_take_subset: "mset (take k xs) \<subseteq># mset xs"
proof -
  have "mset xs = mset (take k xs) + mset (drop k xs)"
    by (metis append_take_drop_id mset_append)
  then show ?thesis by simp
qed

lemma sorted_wrt_take_part: "sorted_wrt R xs \<Longrightarrow> sorted_wrt R (take k xs)"
  by (metis append_take_drop_id sorted_wrt_append)

lemma sorted_wrt_drop_part: "sorted_wrt R xs \<Longrightarrow> sorted_wrt R (drop k xs)"
  by (metis append_take_drop_id sorted_wrt_append)

lemma sorted_sort_values_desc:
  "sorted_wrt (\<lambda>a b. col b \<le> col a) (sort_values_desc col xs)"
proof -
  have "sorted (map (\<lambda>r. - col r) (sort_key (\<lambda>r. - col r) xs))"
    by (rule sorted_sort_key)
  then show ?thesis
    by (simp add: sort_values_desc_def sorted_map)
qed

lemma mset_sort_values_desc: "mset (sort_values_desc col xs) = mset xs"
  by (simp add: sort_values_desc_def)


lemma length_sort_values_desc: "length (sort_values_desc col xs) = length xs"
  by (simp add: sort_values_desc_def)

lemma stable_sort_values_desc:
  "filter (\<lambda>y. col y = q) (sort_values_desc col xs) = filter (\<lambda>y. col y = q) xs"
proof -
  have "filter (\<lambda>y. - col y = - q) (sort_key (\<lambda>r. - col r) xs)
          = filter (\<lambda>y. - col y = - q) xs"
    by (rule sort_key_stable)
  then show ?thesis
    by (simp add: sort_values_desc_def)
qed

lemma keys_groupby_sum: "map fst (groupby_sum df) = sort (remdups (map item_id df))"
  by (simp add: groupby_sum_def comp_def)

section \<open>The two outcomes of \<^verbatim>\<open>predict_sales\<close>\<close>

lemma item_predictions_empty_iff:
  "item_predictions df iid = [] \<longleftrightarrow> iid \<notin> item_id ` set df"
  by (auto simp: item_predictions_def filter_empty_conv)

lemma avg_expr_pos: "0 < k \<Longrightarrow> avg_expr t k = Inr (t / of_nat k)"
  by (simp add: avg_expr_def true_div_def)

lemma predict_sales_nonempty:
  assumes "item_predictions df iid \<noteq> []"
  shows "predict_sales df iid =
    Inr \<lparr>total_sales = sum_list (map item_cnt_month (item_predictions df iid)),
         n_shops = length (item_predictions df iid),
         avg_per_shop = sum_list (map item_cnt_month (item_predictions df iid))
                          / of_nat (length (item_predictions df iid)),
         top_shops = map shop_cols (nlargest 5 item_cnt_month (item_predictions df iid))\<rparr>"
  using assms by (simp add: predict_sales_def Let_def avg_expr_pos)

lemma predict_sales_empty:
  assumes "item_predictions df iid = []"
  shows "predict_sales df iid = Inl NotFound"
  using assms by (simp add: predict_sales_def)

lemma predict_sales_InrD:
  assumes "predict_sales df iid = Inr r"
  shows "item_predictions df iid \<noteq> []"
  using assms predict_sales_empty [of df iid] by auto


lemma snd_shop_cols: "snd (shop_cols x) = item_cnt_month x"
  by (simp add: shop_cols_def)

lemma predict_tie: "predict_sales tie_table 7 = Inr tie_summary"
  by code_simp


text \<open>
  C2. For an \<open>item_id\<close> that matches no row, the lookup fails with \<open>NotFound\<close>; and
  whenever the lookup fails, the failure is \<open>NotFound\<close> and no row matches, so this is
  its only error condition.
\<close>

theorem summarize_absent:
  "(iid \<notin> item_id ` set df \<longrightarrow> predict_sales df iid = Inl NotFound)
   \<and> (predict_sales df iid = Inl e \<longrightarrow> e = NotFound \<and> iid \<notin> item_id ` set df)"
proof (cases "item_predictions df iid = []")
  case True
  then show ?thesis
    by (simp add: predict_sales_empty item_predictions_empty_iff [symmetric])
next
  case False
  then show ?thesis
    by (simp add: predict_sales_nonempty item_predictions_empty_iff [symmetric])
qed

theorem summarize_absent_witness:
  "(99::int) \<notin> item_id ` set example_table
   \<and> predict_sales example_table 99 = Inl NotFound
   \<and> predict_sales example_table 1 \<noteq> Inl NotFound"
proof -
  have h: "(99::int) \<notin> item_id ` set example_table"
    by (simp add: example_table_def)
  have "predict_sales example_table 99 = Inl NotFound"
    using summarize_absent [of 99 example_table] h by blast
  moreover have "predict_sales example_table 1 \<noteq> Inl NotFound"
    using summarize_absent [of 1 example_table NotFound] by (auto simp: example_table_def)
  ultimately show ?thesis using h by blast
qed

text \<open>
  C3. For a successful lookup, \<open>top_shops\<close> has exactly \<open>min 5 shop_count\<close> entries,
  its entries are (shop_id, item_cnt_month) pairs of matching rows (as a multiset, so no
  row is used twice), it is sorted non-increasing by quantity, and for every quantity
  \<open>q\<close> the entries with quantity \<open>q\<close> are an initial segment of the matching rows with
  quantity \<open>q\<close> in table order: rows of equal quantity keep their relative order.
  The matching rows left out have quantities no larger than any entry.
\<close>

theorem top_shops_ranked:
  assumes "predict_sales df iid = Inr r"
  shows "length (top_shops r) = min 5 (n_shops r)
       \<and> mset (top_shops r) \<subseteq># mset (map shop_cols (item_predictions df iid))
       \<and> sorted_wrt (\<lambda>a b. snd b \<le> snd a) (top_shops r)
       \<and> (\<forall>q. prefix (filter (\<lambda>p. snd p = q) (top_shops r))
                      (filter (\<lambda>p. snd p = q) (map shop_cols (item_predictions df iid))))
       \<and> (\<forall>p \<in># mset (map shop_cols (item_predictions df iid)) - mset (top_shops r).
            \<forall>q \<in> set (top_shops r). snd p \<le> snd q)"
proof -
  define sel where "sel = item_predictions df iid"
  define srt where "srt = sort_values_desc item_cnt_month sel"
  have ne: "item_predictions df iid \<noteq> []"
    using assms by (rule predict_sales_InrD)
  have r: "r = \<lparr>total_sales = sum_list (map item_cnt_month sel), n_shops = length sel,
                avg_per_shop = sum_list (map item_cnt_month sel) / of_nat (length sel),
                top_shops = map shop_cols (take 5 srt)\<rparr>"
    using assms unfolding predict_sales_nonempty [OF ne]
    by (simp add: sel_def srt_def nlargest_def df_head_def)
  have len: "length (top_shops r) = min 5 (n_shops r)"
    by (simp add: r srt_def length_sort_values_desc)
  have "mset (take 5 srt) \<subseteq># mset sel"
    using mset_take_subset [of 5 srt] by (simp add: srt_def mset_sort_values_desc)
  then have sub: "mset (top_shops r) \<subseteq># mset (map shop_cols sel)"
    by (simp add: r image_mset_subseteq_mono)
  have "sorted_wrt (\<lambda>a b. item_cnt_month b \<le> item_cnt_month a) (take 5 srt)"
    unfolding srt_def by (rule sorted_wrt_take_part [OF sorted_sort_values_desc])
  then have srtd: "sorted_wrt (\<lambda>a b. snd b \<le> snd a) (top_shops r)"
    by (simp add: r sorted_wrt_map snd_shop_cols)
  have stab: "prefix (filter (\<lambda>p. snd p = q) (top_shops r))
                     (filter (\<lambda>p. snd p = q) (map shop_cols sel))" for q
  proof -
    have "prefix (filter (\<lambda>x. item_cnt_month x = q) (take 5 srt))
                 (filter (\<lambda>x. item_cnt_month x = q) srt)"
      by (rule filter_mono_prefix [OF take_is_prefix])
    then have "prefix (filter (\<lambda>x. item_cnt_month x = q) (take 5 srt))
                 (filter (\<lambda>x. item_cnt_month x = q) sel)"
      by (simp add: srt_def stable_sort_values_desc)
    then have "prefix (map shop_cols (filter (\<lambda>x. item_cnt_month x = q) (take 5 srt)))
                 (map shop_cols (filter (\<lambda>x. item_cnt_month x = q) sel))"
      by (rule map_mono_prefix)
    then show ?thesis
      by (simp add: r filter_map comp_def snd_shop_cols)
  qed
  have "mset srt = mset (take 5 srt) + mset (drop 5 srt)"
    by (metis append_take_drop_id mset_append)
  then have ms: "mset sel = mset (take 5 srt) + mset (drop 5 srt)"
    by (simp add: srt_def mset_sort_values_desc)
  have "mset (map shop_cols sel)
          = mset (map shop_cols (take 5 srt)) + mset (map shop_cols (drop 5 srt))"
    by (simp add: ms)
  then have left: "mset (map shop_cols sel) - mset (top_shops r)
                     = mset (map shop_cols (drop 5 srt))"
    by (simp add: r)
  have "sorted_wrt (\<lambda>a b. item_cnt_month b \<le> item_cnt_month a) (take 5 srt @ drop 5 srt)"
    using sorted_sort_values_desc [of item_cnt_month sel] by (simp add: srt_def)
  then have "\<forall>x \<in> set (take 5 srt). \<forall>y \<in> set (drop 5 srt).
               item_cnt_month y \<le> item_cnt_month x"
    unfolding sorted_wrt_append by blast
  then have rest: "\<forall>p \<in># mset (map shop_cols sel) - mset (top_shops r).
                     \<forall>q \<in> set (top_shops r). snd p \<le> snd q"
    unfolding left by (auto simp: r snd_shop_cols)
  from len sub srtd stab rest show ?thesis
    unfolding sel_def by blast
qed

theorem top_shops_ranked_witness:
  "predict_sales tie_table 7 = Inr tie_summary
   \<and> top_shops tie_summary = [(2, 4), (4, 4), (7, 3), (1, 2), (3, 2)]
   \<and> length (top_shops tie_summary) = min 5 (n_shops tie_summary)
   \<and> sorted_wrt (\<lambda>a b. snd b \<le> snd a) (top_shops tie_summary)
   \<and> prefix (filter (\<lambda>p. snd p = 2) (top_shops tie_summary))
            (filter (\<lambda>p. snd p = 2) (map shop_cols (item_predictions tie_table 7)))"
proof -
  have h: "predict_sales tie_table 7 = Inr tie_summary" by (rule predict_tie)
  have t: "top_shops tie_summary = [(2, 4), (4, 4), (7, 3), (1, 2), (3, 2)]"
    by (simp add: tie_summary_def)
  from top_shops_ranked [OF h] h t show ?thesis by blast
qed



section \<open>Facts about float64 rounding\<close>


















section \<open>The lookup in float64 arithmetic\<close>

lemma avg_expr_f64_pos: "0 < k \<Longrightarrow> avg_expr_f64 t k = Inr (round64 (t / of_nat k))"
  by (simp add: avg_expr_f64_def f64_true_div_def)

lemma predict_sales_f64_nonempty:
  assumes "item_predictions df iid \<noteq> []"
  shows "predict_sales_f64 df iid =
    Inr \<lparr>total_sales = f64_sum (map item_cnt_month (item_predictions df iid)),
         n_shops = length (item_predictions df iid),
         avg_per_shop = round64 (f64_sum (map item_cnt_month (item_predictions df iid))
                          / of_nat (length (item_predictions df iid))),
         top_shops = map shop_cols (nlargest 5 item_cnt_month (item_predictions df iid))\<rparr>"
  using assms by (simp add: predict_sales_f64_def Let_def avg_expr_f64_pos)

lemma predict_sales_f64_empty:
  assumes "item_predictions df iid = []"
  shows "predict_sales_f64 df iid = Inl NotFound"
  using assms by (simp add: predict_sales_f64_def)


lemma predict_sales_f64_shape:
  "map_sum id (\<lambda>r. (n_shops r, top_shops r)) (predict_sales_f64 df iid)
     = map_sum id (\<lambda>r. (n_shops r, top_shops r)) (predict_sales df iid)"
proof (cases "item_predictions df iid = []")
  case True
  then show ?thesis by (simp add: predict_sales_f64_empty predict_sales_empty)
next
  case False
  then show ?thesis by (simp add: predict_sales_f64_nonempty predict_sales_nonempty)
qed



lemma predict_example_f64: "predict_sales_f64 example_table 1 = Inr example_summary"
  by code_simp













section \<open>Facts about the sorted totals and the three groups\<close>

lemma set_all_items: "set (all_items df) = item_id ` set df"
  by (simp add: all_items_def)

lemma distinct_all_items: "distinct (all_items df)"
  by (simp add: all_items_def)

lemma sorted_all_items: "sorted (all_items df)"
  by (simp add: all_items_def)

lemma length_item_totals: "length (item_totals df) = length (all_items df)"
proof -
  have "length (item_totals df) = length (map fst (groupby_sum df))"
    by (simp add: item_totals_def length_sort_values_desc)
  then show ?thesis by (simp add: keys_groupby_sum all_items_def)
qed

lemma keys_item_totals: "mset (map fst (item_totals df)) = mset (all_items df)"
proof -
  have "mset (map fst (item_totals df)) = mset (map fst (groupby_sum df))"
    by (simp add: item_totals_def mset_sort_values_desc)
  then show ?thesis by (simp add: keys_groupby_sum all_items_def)
qed

lemma set_keys_item_totals: "set (map fst (item_totals df)) = item_id ` set df"
  using keys_item_totals [of df] set_all_items [of df] by (metis set_mset_mset)

lemma distinct_keys_item_totals: "distinct (map fst (item_totals df))"
  using keys_item_totals [of df] distinct_all_items [of df]
  by (metis mset_eq_imp_distinct_iff)

lemma sorted_item_totals: "sorted_wrt (\<lambda>a b. snd b \<le> snd a) (item_totals df)"
  unfolding item_totals_def by (rule sorted_sort_values_desc)


lemma top_items_eq: "top_items df = map fst (take 3 (item_totals df))"
  by (simp add: top_items_def df_head_def)

lemma mid_items_eq:
  "mid_items df = map fst (take 4 (drop (length (item_totals df) div 2) (item_totals df)))"
  by (simp add: mid_items_def iloc_slice_def)

lemma low_items_eq:
  "low_items df = map fst (drop (length (item_totals df) - 3) (item_totals df))"
  by (simp add: low_items_def df_tail_def)

lemma set_top_items: "set (top_items df) \<subseteq> item_id ` set df"
  unfolding top_items_eq set_keys_item_totals [symmetric] take_map [symmetric]
  by (rule set_take_subset)

lemma set_mid_items: "set (mid_items df) \<subseteq> item_id ` set df"
  unfolding mid_items_eq set_keys_item_totals [symmetric] take_map [symmetric]
    drop_map [symmetric]
  by (meson set_take_subset set_drop_subset subset_trans)

lemma set_low_items: "set (low_items df) \<subseteq> item_id ` set df"
  unfolding low_items_eq set_keys_item_totals [symmetric] drop_map [symmetric]
  by (rule set_drop_subset)

lemma set_get_sample_items: "set (get_sample_items df n) \<subseteq> item_id ` set df"
  using set_top_items [of df] set_mid_items [of df] set_low_items [of df]
  by (simp add: get_sample_items_def)

lemma length_get_sample_items:
  "length (get_sample_items df n)
     = min 3 (length (all_items df))
       + min 4 (length (all_items df) - length (all_items df) div 2)
       + min 3 (length (all_items df))"
  unfolding get_sample_items_def top_items_eq mid_items_eq low_items_eq
  by (simp add: length_item_totals) linarith

text \<open>Slices that do not overlap form a subsequence, so they repeat no entry.\<close>

lemma subseq_distinct_part:
  assumes "subseq xs ys" and "distinct ys"
  shows "distinct xs"
  using assms by (metis distinct_nthsI subseq_conv_nths)

lemma subseq_drop_le:
  assumes "a \<le> b"
  shows "subseq (drop b xs) (drop a xs)"
proof -
  have "drop b xs = drop (b - a) (drop a xs)"
    using assms by simp
  then have "suffix (drop b xs) (drop a xs)"
    by (metis suffix_drop)
  then show ?thesis by (rule suffix_imp_subseq)
qed

lemma subseq_take_append:
  assumes "subseq ys (drop (a + k) xs)"
  shows "subseq (take k (drop a xs) @ ys) (drop a xs)"
proof -
  have "subseq (take k (drop a xs) @ ys) (take k (drop a xs) @ drop k (drop a xs))"
    using assms by (simp add: subseq_append' add.commute)
  then show ?thesis by (simp only: append_take_drop_id)
qed

lemma subseq_three_slices:
  assumes "3 \<le> h" and "h + 4 \<le> length xs - 3"
  shows "subseq (take 3 xs @ take 4 (drop h xs) @ drop (length xs - 3) xs) xs"
proof -
  have "subseq (drop (length xs - 3) xs) (drop (h + 4) xs)"
    using assms(2) by (rule subseq_drop_le)
  then have "subseq (take 4 (drop h xs) @ drop (length xs - 3) xs) (drop h xs)"
    by (rule subseq_take_append)
  moreover have "subseq (drop h xs) (drop (0 + 3) xs)"
    using assms(1) by (simp add: subseq_drop_le)
  ultimately have "subseq (take 4 (drop h xs) @ drop (length xs - 3) xs) (drop (0 + 3) xs)"
    by (rule subseq_order.order_trans)
  then have "subseq (take 3 (drop 0 xs) @ take 4 (drop h xs) @ drop (length xs - 3) xs)
               (drop 0 xs)"
    by (rule subseq_take_append)
  then show ?thesis by simp
qed

lemma distinct_get_sample_items:
  assumes "13 \<le> length (all_items df)"
  shows "distinct (get_sample_items df n)"
proof -
  define s where "s = item_totals df"
  have len: "13 \<le> length s"
    using assms by (simp add: s_def length_item_totals)
  then have "3 \<le> length s div 2" and "length s div 2 + 4 \<le> length s - 3"
    by linarith+
  then have "subseq (take 3 s @ take 4 (drop (length s div 2) s) @ drop (length s - 3) s) s"
    by (rule subseq_three_slices)
  then have "subseq (map fst (take 3 s @ take 4 (drop (length s div 2) s)
                       @ drop (length s - 3) s)) (map fst s)"
    by (rule subseq_map)
  then have "distinct (map fst (take 3 s @ take 4 (drop (length s div 2) s)
                       @ drop (length s - 3) s))"
    using distinct_keys_item_totals [of df] unfolding s_def by (rule subseq_distinct_part)
  then show ?thesis
    by (simp add: get_sample_items_def top_items_eq mid_items_eq low_items_eq s_def)
qed

lemma distinct_count_list_one: "distinct xs \<Longrightarrow> x \<in> set xs \<Longrightarrow> count_list xs x = 1"
  by (induction xs) auto

lemma options_eq:
  "options df = 0 # get_sample_items df 10
       @ filter (\<lambda>i. i \<notin> set (get_sample_items df 10)) (all_items df)"
  by (simp add: options_def Let_def)

section \<open>The example tables, evaluated\<close>

lemma item_totals_table20:
  "item_totals table20 =
     [(20, 20), (19, 19), (18, 18), (17, 17), (16, 16), (15, 15), (14, 14), (13, 13),
      (12, 12), (11, 11), (10, 10), (9, 9), (8, 8), (7, 7), (6, 6), (5, 5), (4, 4),
      (3, 3), (2, 2), (1, 1)]"
  by code_simp

lemma all_items_table20:
  "all_items table20 = [1, 2, 3, 4, 5, 6, 7, 8, 9, 10, 11, 12, 13, 14, 15, 16, 17, 18, 19, 20]"
  by code_simp

lemma sample_table20: "get_sample_items table20 10 = [20, 19, 18, 10, 9, 8, 7, 3, 2, 1]"
  by code_simp

lemma options_table20:
  "options table20 =
     [0, 20, 19, 18, 10, 9, 8, 7, 3, 2, 1, 4, 5, 6, 11, 12, 13, 14, 15, 16, 17]"
  by code_simp

lemma sample_example: "get_sample_items example_table 10 = [1, 2, 2, 1, 2]"
  by code_simp

text \<open>
  C7. For every table, also one with fewer than 10 distinct items (and the empty one),
  \<open>get_sample_items\<close> returns a list: the three selections are clamped to the frame, so
  the result has \<open>min 3 c + min 4 (c - c div 2) + min 3 c\<close> entries for \<open>c\<close> distinct
  items, which is at most 10, and every entry is an \<open>item_id\<close> of the table.
\<close>

theorem sample_total_bounded:
  "length (get_sample_items df n) \<le> 10
   \<and> length (get_sample_items df n)
       = min 3 (length (all_items df))
         + min 4 (length (all_items df) - length (all_items df) div 2)
         + min 3 (length (all_items df))
   \<and> set (get_sample_items df n) \<subseteq> item_id ` set df"
proof -
  have "length (get_sample_items df n) \<le> 10"
    unfolding length_get_sample_items by linarith
  then show ?thesis
    using length_get_sample_items [of df n] set_get_sample_items [of df n] by blast
qed

theorem sample_total_bounded_witness:
  "get_sample_items example_table 10 = [1, 2, 2, 1, 2]
   \<and> length (get_sample_items example_table 10) \<le> 10
   \<and> get_sample_items [] 10 = []"
proof -
  have "length (get_sample_items [] 10) \<le> 0"
    using sample_total_bounded [of "[]" 10] by (simp add: all_items_def)
  then show ?thesis
    using sample_total_bounded [of example_table 10] sample_example by simp
qed



text \<open>
  C4, as the specification states it, fails: on the table of items 1..20 with totals
  1..20 the bottom group is \<open>[3, 2, 1]\<close>, not \<open>[1, 2, 3]\<close>.
\<close>

theorem low_items_ascending_counterexample:
  "low_items table20 = [3, 2, 1] \<and> low_items table20 \<noteq> [1, 2, 3]"
  by (simp add: low_items_eq item_totals_table20)

text \<open>
  C4, amended. The bottom group is the last \<open>min 3 count\<close> entries of the totals sorted
  non-increasing: it is itself in non-increasing order of total (the lowest-selling item
  last), and every entry outside it has a total at least as large as every entry in it.
  On the table of items 1..20 with totals 1..20 it is \<open>[3, 2, 1]\<close>.
\<close>

theorem low_items_tail:
  "low_items df = map fst (drop (length (item_totals df) - 3) (item_totals df))
   \<and> length (low_items df) = min 3 (length (all_items df))
   \<and> sorted_wrt (\<lambda>a b. snd b \<le> snd a) (drop (length (item_totals df) - 3) (item_totals df))
   \<and> (\<forall>p \<in> set (take (length (item_totals df) - 3) (item_totals df)).
        \<forall>q \<in> set (drop (length (item_totals df) - 3) (item_totals df)). snd q \<le> snd p)
   \<and> low_items table20 = [3, 2, 1]"
proof -
  define s where "s = item_totals df"
  define k where "k = length s - 3"
  have srt: "sorted_wrt (\<lambda>a b. snd b \<le> snd a) (take k s @ drop k s)"
    using sorted_item_totals [of df] by (simp add: s_def)
  have a: "sorted_wrt (\<lambda>a b. snd b \<le> snd a) (drop k s)"
    using srt unfolding sorted_wrt_append by blast
  have b: "\<forall>p \<in> set (take k s). \<forall>q \<in> set (drop k s). snd q \<le> snd p"
    using srt unfolding sorted_wrt_append by blast
  have c: "length (low_items df) = min 3 (length (all_items df))"
    unfolding low_items_eq by (simp add: length_item_totals)
  have d: "low_items table20 = [3, 2, 1]"
    by (simp add: low_items_eq item_totals_table20)
  from a b c d low_items_eq [of df] show ?thesis
    unfolding k_def s_def by blast
qed

theorem low_items_tail_witness:
  "(15, 15) \<in> set (take (length (item_totals table20) - 3) (item_totals table20))
   \<and> (2, 2) \<in> set (drop (length (item_totals table20) - 3) (item_totals table20))
   \<and> snd (2 :: int, 2 :: rat) \<le> snd (15 :: int, 15 :: rat)
   \<and> low_items table20 = [3, 2, 1]
   \<and> length (low_items table20) = 3"
proof -
  have p: "(15, 15) \<in> set (take (length (item_totals table20) - 3) (item_totals table20))"
    by (simp add: item_totals_table20)
  have q: "(2, 2) \<in> set (drop (length (item_totals table20) - 3) (item_totals table20))"
    by (simp add: item_totals_table20)
  have e: "low_items table20 = [3, 2, 1]"
    using low_items_tail [of table20] by blast
  then have l: "length (low_items table20) = 3"
    by simp
  have "snd (2 :: int, 2 :: rat) \<le> snd (15 :: int, 15 :: rat)"
    using low_items_tail [of table20] p q by blast
  with p q e l show ?thesis by blast
qed

text \<open>
  C6, as the specification states it, fails: on the table of items 1..20 the entries
  after the sentinel start with the sample \<open>20, 19, 18, 10, ...\<close> and are not in
  ascending order.
\<close>

theorem options_ascending_counterexample:
  "options table20
     = [0, 20, 19, 18, 10, 9, 8, 7, 3, 2, 1, 4, 5, 6, 11, 12, 13, 14, 15, 16, 17]
   \<and> \<not> sorted (tl (options table20))"
  by (simp add: options_table20)

text \<open>
  C6, amended. The selection list is the sentinel \<open>0\<close>, then the sample in sample
  order, then the distinct \<open>item_id\<close>s of the table that are not in the sample, in
  ascending order. After the sentinel, the entries are exactly the \<open>item_id\<close>s of the
  table; an \<open>item_id\<close> outside the sample occurs exactly once; and for a table with at
  least 13 distinct items every \<open>item_id\<close> occurs exactly once.
\<close>

theorem options_layout:
  "options df = 0 # get_sample_items df 10
       @ filter (\<lambda>i. i \<notin> set (get_sample_items df 10)) (all_items df)
   \<and> set (tl (options df)) = item_id ` set df
   \<and> sorted (filter (\<lambda>i. i \<notin> set (get_sample_items df 10)) (all_items df))
   \<and> distinct (filter (\<lambda>i. i \<notin> set (get_sample_items df 10)) (all_items df))
   \<and> (\<forall>i \<in> item_id ` set df.
        i \<notin> set (get_sample_items df 10) \<longrightarrow> count_list (tl (options df)) i = 1)
   \<and> (13 \<le> length (all_items df) \<longrightarrow> distinct (tl (options df)))"
proof -
  define smp where "smp = get_sample_items df 10"
  define rest where "rest = filter (\<lambda>i. i \<notin> set smp) (all_items df)"
  have opt: "options df = 0 # smp @ rest"
    by (simp add: options_eq smp_def rest_def)
  have sub: "set smp \<subseteq> item_id ` set df"
    unfolding smp_def by (rule set_get_sample_items)
  have set_rest: "set rest = item_id ` set df - set smp"
    by (auto simp: rest_def set_all_items)
  have a: "set (tl (options df)) = item_id ` set df"
    using sub by (auto simp: opt set_rest)
  have b: "sorted rest"
    unfolding rest_def by (rule sorted_wrt_filter [OF sorted_all_items])
  have c: "distinct rest"
    unfolding rest_def by (rule distinct_filter [OF distinct_all_items])
  have d: "\<forall>i \<in> item_id ` set df. i \<notin> set smp \<longrightarrow> count_list (tl (options df)) i = 1"
  proof (intro ballI impI)
    fix i
    assume "i \<in> item_id ` set df" and out: "i \<notin> set smp"
    then have "i \<in> set rest" by (simp add: set_rest)
    with c have "count_list rest i = 1" by (rule distinct_count_list_one)
    with out show "count_list (tl (options df)) i = 1" by (simp add: opt)
  qed
  have e: "13 \<le> length (all_items df) \<longrightarrow> distinct (tl (options df))"
  proof
    assume "13 \<le> length (all_items df)"
    then have "distinct smp"
      unfolding smp_def by (rule distinct_get_sample_items)
    with c show "distinct (tl (options df))"
      by (auto simp: opt set_rest)
  qed
  from opt a b c d e show ?thesis
    unfolding rest_def smp_def by blast
qed

theorem options_layout_witness:
  "13 \<le> length (all_items table20)
   \<and> (4::int) \<in> item_id ` set table20
   \<and> (4::int) \<notin> set (get_sample_items table20 10)
   \<and> count_list (tl (options table20)) 4 = 1
   \<and> distinct (tl (options table20))
   \<and> set (tl (options table20)) = item_id ` set table20"
proof -
  have h1: "13 \<le> length (all_items table20)"
    by (simp add: all_items_table20)
  have h2: "(4::int) \<in> item_id ` set table20"
    unfolding set_all_items [symmetric] by (simp add: all_items_table20)
  have h3: "(4::int) \<notin> set (get_sample_items table20 10)"
    by (simp add: sample_table20)
  from options_layout [of table20] h1 h2 h3 show ?thesis by blast
qed

text \<open>
  C10. The second parameter of \<open>get_sample_items\<close> has no effect on the result: the
  group sizes 3, 4 and 3 are constants of the body.
\<close>

theorem sample_ignores_n: "get_sample_items df n1 = get_sample_items df n2"
  by (simp add: get_sample_items_def)

end
